theory Spec2Isabelle
  imports Main
begin

section \<open>The validator front end of the NNEF parser (parser/cpp/main.cpp)\<close>

text \<open>
  The file holds the callback \<open>PrintCallback\<close> (the renderer and the atomicity policy),
  \<open>parseAtomics\<close> and \<open>main\<close>. The parser, the dictionary, the shape and value types and
  the binary codec are declared in headers outside this file; what \<open>main.cpp\<close> needs of
  them is taken as a parameter below.
\<close>

subsection \<open>Data\<close>

text \<open>
  A parameter or result of a prototype: \<open>param.name()\<close> and \<open>param.type()->isTensor()\<close>
  are the only two things the file reads of it.
\<close>

record Typed =
  typed_name :: string
  typed_isTensor :: bool

record Prototype =
  proto_name :: string
  proto_params :: "Typed list"
  proto_results :: "Typed list"

text \<open>\<open>nnef::Dictionary<T>\<close>, keyed by strings.\<close>

type_synonym 'a Dictionary = "string \<rightharpoonup> 'a"

text \<open>
  What can go wrong below the level of the printed diagnostics: reading through the null
  pointer \<open>argv[argc]\<close>, and a dictionary lookup of a key that is not there.
\<close>

datatype Fault = NullPointerDereference | KeyNotFound

text \<open>
  Modelled from the spec: \<open>Dictionary::operator[]\<close> (common/dictionary.h) is not part of
  the file; the specification says of the named mapping that lookup by key fails with
  \<open>KeyNotFound\<close> if the key is absent.
\<close>

definition dict_at :: "'a Dictionary \<Rightarrow> string \<Rightarrow> Fault + 'a" where
  "dict_at d k = (case d k of None \<Rightarrow> Inl KeyNotFound | Some v \<Rightarrow> Inr v)"

definition endl :: string where
  "endl = [CHR 0x0A]"

subsection \<open>\<open>PrintCallback::isAtomic\<close>\<close>

text \<open>
  \<open>atomics.find(proto.name())\<close>, then the base class \<open>nnef::Parser::Callback::isAtomic\<close>,
  which is declared outside the file and is the parameter \<open>base\<close>.
\<close>

definition isAtomic ::
  "(string \<rightharpoonup> bool) \<Rightarrow> (Prototype \<Rightarrow> 'v Dictionary \<Rightarrow> bool) \<Rightarrow> Prototype \<Rightarrow> 'v Dictionary \<Rightarrow> bool" where
  "isAtomic atomics base proto args =
     (case atomics (proto_name proto) of
        Some second \<Rightarrow> second
      | None \<Rightarrow> base proto args)"

subsection \<open>\<open>parseAtomics\<close>\<close>

text \<open>
  The class \<open>\s\<close> of \<open>std::regex\<close> on \<open>char\<close> in the classic locale: space, and the
  control characters from horizontal tab to carriage return.
\<close>

definition is_space :: "char \<Rightarrow> bool" where
  "is_space c = (c = CHR 0x20 \<or> c = CHR 0x09 \<or> c = CHR 0x0A \<or> c = CHR 0x0B \<or> c = CHR 0x0C \<or> c = CHR 0x0D)"

text \<open>
  \<open>std::cregex_token_iterator it(str, str + strlen(str), reg, -1)\<close> with \<open>reg = \s+\<close>
  yields the pieces of the text between the maximal runs of white space: the piece before
  each run (empty when the text starts with one), and the piece after the last run only when
  it is not empty. \<open>in_run\<close> says that the character before was white space, \<open>piece\<close>
  is the piece read so far.
\<close>

fun token_loop :: "bool \<Rightarrow> string \<Rightarrow> string \<Rightarrow> string list" where
  "token_loop in_run piece [] = (if piece = [] then [] else [piece])"
| "token_loop in_run piece (c # cs) =
     (if is_space c
      then (if in_run then token_loop True [] cs else piece # token_loop True [] cs)
      else token_loop False (piece @ [c]) cs)"

text \<open>
  With no match at all the iterator yields the whole text once, also when the text is
  empty; on a text that is not empty this is what the loop gives.
\<close>

definition tokens :: "string \<Rightarrow> string list" where
  "tokens str = (if str = [] then [[]] else token_loop False [] str)"

text \<open>\<open>std::map::emplace\<close>: the entry is inserted only when the key has none.\<close>

definition emplace :: "(string \<rightharpoonup> bool) \<Rightarrow> string \<Rightarrow> bool \<Rightarrow> (string \<rightharpoonup> bool)" where
  "emplace m k v = (case m k of None \<Rightarrow> m(k \<mapsto> v) | Some _ \<Rightarrow> m)"

definition atomics_diagnostic :: string where
  "atomics_diagnostic =
     ''atomic op must be marked with '+' or '-' for addition to or removal from the list of standard ops'' @ endl"

text \<open>
  One turn of the \<open>while\<close> loop, on the table and on what has been written to the standard
  output. \<open>token[0]\<close> of an empty \<open>std::string\<close> is the terminating null character.
\<close>

definition atomics_step :: "string \<Rightarrow> (string \<rightharpoonup> bool) \<times> string \<Rightarrow> (string \<rightharpoonup> bool) \<times> string" where
  "atomics_step token st =
     (let ch = (case token of [] \<Rightarrow> CHR 0x00 | c # _ \<Rightarrow> c) in
      if ch = CHR ''+'' \<or> ch = CHR ''-''
      then (emplace (fst st) (drop 1 token) (ch = CHR ''+''), snd st)
      else (fst st, snd st @ atomics_diagnostic))"

fun atomics_loop :: "string list \<Rightarrow> (string \<rightharpoonup> bool) \<times> string \<Rightarrow> (string \<rightharpoonup> bool) \<times> string" where
  "atomics_loop [] st = st"
| "atomics_loop (token # rest) st = atomics_loop rest (atomics_step token st)"

text \<open>
  \<open>str\<close> is a \<open>const char*\<close>: \<open>None\<close> is the null pointer, on which \<open>strlen\<close> faults.
  The result is the table and the text written to the standard output.
\<close>

definition parseAtomics :: "string option \<Rightarrow> Fault + ((string \<rightharpoonup> bool) \<times> string)" where
  "parseAtomics str =
     (case str of
        None \<Rightarrow> Inl NullPointerDereference
      | Some s \<Rightarrow> Inr (atomics_loop (tokens s) (Map.empty, [])))"

subsection \<open>The renderer: \<open>beginGraph\<close>, \<open>endGraph\<close>, \<open>operation\<close>\<close>

text \<open>
  Each function returns the text it writes to the standard output. The loop
  \<open>for ( size_t i = 0; i < count; ++i )\<close> writes the separator when \<open>i\<close> is not zero.
\<close>

primrec names_loop :: "nat \<Rightarrow> Typed list \<Rightarrow> string" where
  "names_loop i [] = []"
| "names_loop i (p # ps) =
     (if i \<noteq> 0 then '', '' else []) @ typed_name p @ names_loop (Suc i) ps"

definition beginGraph :: "Prototype \<Rightarrow> string" where
  "beginGraph proto =
     ''graph '' @ proto_name proto @ ''( ''
     @ names_loop 0 (proto_params proto)
     @ '' ) -> ( ''
     @ names_loop 0 (proto_results proto)
     @ '' )'' @ endl @ ''{'' @ endl"

definition endGraph :: "Prototype \<Rightarrow> string" where
  "endGraph proto = ''}'' @ endl"

text \<open>
  \<open>print_value\<close> is \<open>operator<<\<close> on \<open>nnef::Value\<close>, declared outside the file. The
  dictionary of shapes that \<open>operation\<close> receives is not read by it.
\<close>

primrec results_loop :: "('v \<Rightarrow> string) \<Rightarrow> 'v Dictionary \<Rightarrow> nat \<Rightarrow> Typed list \<Rightarrow> Fault + string" where
  "results_loop print_value args i [] = Inr []"
| "results_loop print_value args i (result # rest) =
     (case dict_at args (typed_name result) of
        Inl f \<Rightarrow> Inl f
      | Inr v \<Rightarrow>
          (case results_loop print_value args (Suc i) rest of
             Inl f \<Rightarrow> Inl f
           | Inr text \<Rightarrow> Inr ((if i \<noteq> 0 then '', '' else []) @ print_value v @ text)))"

primrec params_loop :: "('v \<Rightarrow> string) \<Rightarrow> 'v Dictionary \<Rightarrow> nat \<Rightarrow> Typed list \<Rightarrow> Fault + string" where
  "params_loop print_value args i [] = Inr []"
| "params_loop print_value args i (param # rest) =
     (case dict_at args (typed_name param) of
        Inl f \<Rightarrow> Inl f
      | Inr v \<Rightarrow>
          (case params_loop print_value args (Suc i) rest of
             Inl f \<Rightarrow> Inl f
           | Inr text \<Rightarrow>
               Inr ((if i \<noteq> 0 then '', '' else [])
                    @ (if \<not> typed_isTensor param then typed_name param @ '' = '' else [])
                    @ print_value v @ text)))"

definition operation :: "('v \<Rightarrow> string) \<Rightarrow> Prototype \<Rightarrow> 'v Dictionary \<Rightarrow> Fault + string" where
  "operation print_value proto args =
     (case results_loop print_value args 0 (proto_results proto) of
        Inl f \<Rightarrow> Inl f
      | Inr results \<Rightarrow>
          (case params_loop print_value args 0 (proto_params proto) of
             Inl f \<Rightarrow> Inl f
           | Inr params \<Rightarrow>
               Inr ([CHR 0x09] @ results @ '' = '' @ proto_name proto @ ''('' @ params @ '')'' @ endl)))"

subsection \<open>The error of the parser and its report\<close>

text \<open>
  \<open>e.position()\<close> has a line, a column and the pointer \<open>origin\<close> to the position the
  text was evaluated from; \<open>None\<close> is the null pointer.
\<close>

datatype Position = Position (line: nat) (column: nat) (origin: "Position option")

record Error =
  what :: string
  position :: Position

text \<open>The conversion \<open>%u\<close> of \<open>printf\<close>: an unsigned number in decimal.\<close>

definition digit :: "nat \<Rightarrow> char" where
  "digit d = ''0123456789'' ! d"

fun print_unsigned :: "nat \<Rightarrow> string" where
  "print_unsigned n = (if n < 10 then [digit n] else print_unsigned (n div 10) @ [digit (n mod 10)])"

declare print_unsigned.simps [simp del]

definition evaluated_from :: "Position \<Rightarrow> string" where
  "evaluated_from p =
     ''... evaluated from ['' @ print_unsigned (line p) @ '':'' @ print_unsigned (column p) @ '']'' @ endl"

text \<open>\<open>while ( origin ) { printf(...); origin = origin->origin; }\<close>\<close>

fun origin_loop :: "Position option \<Rightarrow> string" where
  "origin_loop None = []"
| "origin_loop (Some (Position l c next)) =
     evaluated_from (Position l c next) @ origin_loop next"

definition report_error :: "Error \<Rightarrow> string" where
  "report_error e =
     ''Parse error: ['' @ print_unsigned (line (position e)) @ '':''
     @ print_unsigned (column (position e)) @ ''] '' @ what e @ endl
     @ origin_loop (origin (position e))"

subsection \<open>Shapes and the check of the binary files\<close>

type_synonym Shape = "nat list"

record TensorHeader =
  header_shape :: Shape

text \<open>
  Modelled from the spec: \<open>operator!=\<close> of \<open>nnef::Shape\<close> (common/shape.h) is not part of
  the file; the specification says that a shape is an ordered sequence of non-negative
  integers and that two shapes are equal iff they have the same length and identical
  dimensions in order.
\<close>

definition shape_equal :: "Shape \<Rightarrow> Shape \<Rightarrow> bool" where
  "shape_equal a b = (length a = length b \<and> list_all (\<lambda>(x, y). x = y) (zip a b))"

text \<open>
  \<open>std::string::find_last_of\<close> of one character: the last index that holds it, and
  \<open>npos\<close>, the largest \<open>size_t\<close>, when there is none.
\<close>

definition npos :: nat where
  "npos = 2 ^ 64 - 1"

primrec find_last_loop :: "char \<Rightarrow> nat \<Rightarrow> string \<Rightarrow> nat \<Rightarrow> nat" where
  "find_last_loop c i [] found = found"
| "find_last_loop c i (x # xs) found = find_last_loop c (Suc i) xs (if x = c then i else found)"

definition find_last_of :: "string \<Rightarrow> char \<Rightarrow> nat" where
  "find_last_of s c = find_last_loop c 0 s npos"

text \<open>
  \<open>filename.substr(0, filename.find_last_of('/') + 1) + it.first + ".dat"\<close>; the sum is
  one of \<open>size_t\<close>, so \<open>npos + 1\<close> is zero.
\<close>

definition binaryFilename :: "string \<Rightarrow> string \<Rightarrow> string" where
  "binaryFilename filename name =
     take ((find_last_of filename CHR ''/'' + 1) mod 2 ^ 64) filename @ name @ ''.dat''"

text \<open>
  The body of the loop over \<open>callback.variableShapes()\<close>, for one entry; the result is
  the text written to the standard error. The parameters are what the file takes from
  outside: \<open>print_shape\<close> is \<open>operator<<\<close> on a shape, \<open>open_file\<close> gives the stream of
  a path, or \<open>None\<close> when the stream is not good after the opening, and
  \<open>read_tensor_header\<close> gives the header read from a stream, or \<open>None\<close> when it
  returns false.
\<close>

definition check_entry ::
  "(Shape \<Rightarrow> string) \<Rightarrow> (string \<Rightarrow> 's option) \<Rightarrow> ('s \<Rightarrow> TensorHeader option) \<Rightarrow> string
     \<Rightarrow> string \<times> Shape \<Rightarrow> string" where
  "check_entry print_shape open_file read_tensor_header filename it =
     (case open_file (binaryFilename filename (fst it)) of
        None \<Rightarrow> ''Could not open file: '' @ binaryFilename filename (fst it) @ endl
      | Some bin \<Rightarrow>
          (case read_tensor_header bin of
             None \<Rightarrow>
               ''Failed to read binary header from file: '' @ binaryFilename filename (fst it) @ endl
           | Some header \<Rightarrow>
               if \<not> shape_equal (header_shape header) (snd it)
               then ''Shape '' @ print_shape (header_shape header) @ '' in tensor file ''
                    @ [CHR 0x27] @ binaryFilename filename (fst it) @ [CHR 0x27]
                    @ '' does not match shape '' @ print_shape (snd it)
                    @ '' defined in network structure'' @ endl
               else []))"

primrec validate_loop ::
  "(Shape \<Rightarrow> string) \<Rightarrow> (string \<Rightarrow> 's option) \<Rightarrow> ('s \<Rightarrow> TensorHeader option) \<Rightarrow> string
     \<Rightarrow> (string \<times> Shape) list \<Rightarrow> string" where
  "validate_loop print_shape open_file read_tensor_header filename [] = []"
| "validate_loop print_shape open_file read_tensor_header filename (it # rest) =
     check_entry print_shape open_file read_tensor_header filename it
     @ validate_loop print_shape open_file read_tensor_header filename rest"

subsection \<open>The options\<close>

record Options =
  opt_flat :: bool
  opt_layers :: bool
  opt_binary :: bool
  opt_atomics :: "string \<rightharpoonup> bool"

text \<open>
  \<open>argv\<close> has \<open>argc\<close> strings and the null pointer after them.
\<close>

definition arg_at :: "string list \<Rightarrow> nat \<Rightarrow> string option" where
  "arg_at argv i = (if i < length argv then Some (argv ! i) else None)"

text \<open>
  The loop \<open>for ( int i = 2; i < argc; ++i )\<close> on the options, on the text written to
  the standard output and on the text written to the standard error. The branch of
  \<open>--atomics\<close> reads \<open>argv[++i]\<close>, so the loop goes on two places further.
\<close>

function options_loop ::
  "string list \<Rightarrow> nat \<Rightarrow> Options \<times> string \<times> string \<Rightarrow> Fault + (Options \<times> string \<times> string)" where
  "options_loop argv i st =
     (if i < length argv then
        (if argv ! i = ''--flat'' then
           options_loop argv (i + 1) ((fst st)\<lparr>opt_flat := True\<rparr>, snd st)
         else if argv ! i = ''--layers'' then
           options_loop argv (i + 1) ((fst st)\<lparr>opt_layers := True\<rparr>, snd st)
         else if argv ! i = ''--binary'' then
           options_loop argv (i + 1) ((fst st)\<lparr>opt_binary := True\<rparr>, snd st)
         else if argv ! i = ''--atomics'' then
           (case parseAtomics (arg_at argv (i + 1)) of
              Inl f \<Rightarrow> Inl f
            | Inr r \<Rightarrow>
                options_loop argv (i + 2)
                  ((fst st)\<lparr>opt_atomics := fst r\<rparr>, fst (snd st) @ snd r, snd (snd st)))
         else
           options_loop argv (i + 1)
             (fst st, fst (snd st), snd (snd st) @ ''unrecognized option: '' @ argv ! i @ endl))
      else Inr st)"
  by pat_completeness auto
termination
  by (relation "measure (\<lambda>(argv, i, st). length argv - i)") auto

declare options_loop.simps [simp del]

definition no_options :: Options where
  "no_options = \<lparr>opt_flat = False, opt_layers = False, opt_binary = False, opt_atomics = Map.empty\<rparr>"

subsection \<open>The parser, from outside\<close>

text \<open>
  \<open>parser->parse(is, callback)\<close> is declared outside the file. What \<open>main\<close> sees of one
  call is the sequence of calls to the printing functions of the callback, the error thrown,
  if any, and \<open>callback.variableShapes()\<close> afterwards, in the order of its iteration.
\<close>

datatype 'v Event =
    BeginGraph Prototype
  | Operation Prototype "'v Dictionary"
  | EndGraph Prototype

record 'v Parsed =
  events :: "'v Event list"
  thrown :: "Error option"
  variableShapes :: "(string \<times> Shape) list"

fun print_event :: "('v \<Rightarrow> string) \<Rightarrow> 'v Event \<Rightarrow> Fault + string" where
  "print_event print_value (BeginGraph proto) = Inr (beginGraph proto)"
| "print_event print_value (Operation proto args) = operation print_value proto args"
| "print_event print_value (EndGraph proto) = Inr (endGraph proto)"

fun print_events :: "('v \<Rightarrow> string) \<Rightarrow> 'v Event list \<Rightarrow> Fault + string" where
  "print_events print_value [] = Inr []"
| "print_events print_value (ev # rest) =
     (case print_event print_value ev of
        Inl f \<Rightarrow> Inl f
      | Inr text \<Rightarrow>
          (case print_events print_value rest of
             Inl f \<Rightarrow> Inl f
           | Inr others \<Rightarrow> Inr (text @ others)))"

text \<open>
  Everything \<open>main\<close> takes from outside the file: the base class's \<open>isAtomic\<close>, the
  printing of values and shapes, the opening of files, the reading of a tensor header, and
  the parser, which is given the two flags, the stream and the \<open>isAtomic\<close> of the
  callback.
\<close>

record ('v, 's) Outside =
  base_isAtomic :: "Prototype \<Rightarrow> 'v Dictionary \<Rightarrow> bool"
  print_value :: "'v \<Rightarrow> string"
  print_shape :: "Shape \<Rightarrow> string"
  open_file :: "string \<Rightarrow> 's option"
  read_tensor_header :: "'s \<Rightarrow> TensorHeader option"
  parse :: "bool \<Rightarrow> bool \<Rightarrow> 's \<Rightarrow> (Prototype \<Rightarrow> 'v Dictionary \<Rightarrow> bool) \<Rightarrow> 'v Parsed"

subsection \<open>\<open>main\<close>\<close>

record Run =
  return_value :: int
  cout :: string
  cerr :: string

definition usage :: string where
  "usage =
     ''Usage: nnef-validator <network-structure.nnef> [--flat] [--layers] [--binary]'' @ endl
     @ endl
     @ ''Description of options:'' @ endl
     @ ''--flat: use flat parser instead of compositional'' @ endl
     @ ''--layers: enable predefined layer level fragments'' @ endl
     @ ''--binary: check binary data files for variables'' @ endl
     @ ''--atomics: op names to add/remove from atomic ops'' @ endl
     @ ''           default list includes standard ops'' @ endl
     @ ''           e.g. +op1 adds op1, -op2 removes op2'' @ endl"

text \<open>
  \<open>PrintCallback callback(atomics)\<close>, the choice of the parser by the flags, and
  \<open>parser->parse(is, callback)\<close>.
\<close>

definition run_parser :: "('v, 's) Outside \<Rightarrow> 's \<Rightarrow> Options \<Rightarrow> 'v Parsed" where
  "run_parser outside is opts =
     parse outside (opt_flat opts) (opt_layers opts) is
       (isAtomic (opt_atomics opts) (base_isAtomic outside))"

text \<open>
  The part of \<open>main\<close> after the loop of the options: the parser runs, then either
  \<open>Parse succeeded\<close> or the report of the error is written, then comes
  \<open>if ( binary )\<close> with the loop over the variable shapes, then \<open>return 0\<close>.
\<close>

definition parse_and_check ::
  "('v, 's) Outside \<Rightarrow> string \<Rightarrow> 's \<Rightarrow> Options \<times> string \<times> string \<Rightarrow> Fault + Run" where
  "parse_and_check outside filename is st =
     (let opts = fst st;
          parsed = run_parser outside is opts
      in case print_events (print_value outside) (events parsed) of
           Inl f \<Rightarrow> Inl f
         | Inr printed \<Rightarrow>
             Inr \<lparr>return_value = 0,
                  cout = fst (snd st) @ printed
                         @ (case thrown parsed of
                              None \<Rightarrow> ''Parse succeeded'' @ endl
                            | Some e \<Rightarrow> report_error e),
                  cerr = snd (snd st)
                         @ (if opt_binary opts
                            then validate_loop (print_shape outside) (open_file outside)
                                   (read_tensor_header outside) filename (variableShapes parsed)
                            else [])\<rparr>)"

definition main :: "('v, 's) Outside \<Rightarrow> string list \<Rightarrow> Fault + Run" where
  "main outside argv =
     (if length argv < 2 then Inr \<lparr>return_value = 0, cout = usage, cerr = []\<rparr>
      else
        (case open_file outside (argv ! 1) of
           None \<Rightarrow>
             Inr \<lparr>return_value = - 1, cout = [],
                  cerr = ''Could not open file: '' @ argv ! 1 @ endl\<rparr>
         | Some is \<Rightarrow>
             (case options_loop argv 2 (no_options, [], []) of
                Inl f \<Rightarrow> Inl f
              | Inr st \<Rightarrow> parse_and_check outside (argv ! 1) is st)))"

section \<open>Notions used to state the properties, and the examples\<close>

text \<open>A token that starts with \<open>+\<close> or \<open>-\<close>.\<close>

definition well_formed :: "string \<Rightarrow> bool" where
  "well_formed token = (case token of [] \<Rightarrow> False | c # _ \<Rightarrow> c = CHR ''+'' \<or> c = CHR ''-'')"

text \<open>
  The boolean of the first token of a sequence that marks a name, as \<open>+name\<close> or as
  \<open>-name\<close>.
\<close>

definition first_mark :: "string list \<Rightarrow> string \<Rightarrow> bool option" where
  "first_mark ts name =
     (case find (\<lambda>t. t = CHR ''+'' # name \<or> t = CHR ''-'' # name) ts of
        None \<Rightarrow> None
      | Some t \<Rightarrow> Some (t = CHR ''+'' # name))"

definition conv_proto :: Prototype where
  "conv_proto = \<lparr>proto_name = ''conv'', proto_params = [], proto_results = []\<rparr>"

text \<open>The texts of a list with a separator between each two of them.\<close>

fun join :: "string \<Rightarrow> string list \<Rightarrow> string" where
  "join sep [] = []"
| "join sep [x] = x"
| "join sep (x # y # ys) = x @ sep @ join sep (y # ys)"

definition tensor :: "string \<Rightarrow> Typed" where
  "tensor n = \<lparr>typed_name = n, typed_isTensor = True\<rparr>"

definition attribute :: "string \<Rightarrow> Typed" where
  "attribute n = \<lparr>typed_name = n, typed_isTensor = False\<rparr>"

definition graph_f :: Prototype where
  "graph_f = \<lparr>proto_name = ''f'', proto_params = [tensor ''x'', tensor ''y''], proto_results = [tensor ''z'']\<rparr>"

definition add_proto :: Prototype where
  "add_proto = \<lparr>proto_name = ''add'', proto_params = [tensor ''a'', tensor ''b''], proto_results = [tensor ''c'']\<rparr>"

definition add_args :: "string Dictionary" where
  "add_args = [''a'' \<mapsto> ''t1'', ''b'' \<mapsto> ''t2'', ''c'' \<mapsto> ''t3'']"

definition sum_proto :: Prototype where
  "sum_proto = \<lparr>proto_name = ''sum'', proto_params = [tensor ''input'', attribute ''axis''], proto_results = [tensor ''output'']\<rparr>"

definition sum_args :: "string Dictionary" where
  "sum_args = [''input'' \<mapsto> ''t1'', ''axis'' \<mapsto> ''1'', ''output'' \<mapsto> ''t2'']"

text \<open>The positions reached from an \<open>origin\<close> pointer, the nearest first.\<close>

fun origins :: "Position option \<Rightarrow> Position list" where
  "origins None = []"
| "origins (Some (Position l c next)) = Position l c next # origins next"

definition chain_error :: Error where
  "chain_error = \<lparr>what = ''undefined identifier'',
                   position = Position 3 5 (Some (Position 10 2 (Some (Position 1 1 None))))\<rparr>"

text \<open>
  The text of one argument slot: the bound value, after \<open>name = \<close> when the parameter
  is not a tensor.
\<close>

definition slot_text :: "('v \<Rightarrow> string) \<Rightarrow> 'v Dictionary \<Rightarrow> Typed \<Rightarrow> string" where
  "slot_text pv args p =
     (if typed_isTensor p then [] else typed_name p @ '' = '') @ pv (the (args (typed_name p)))"

text \<open>The examples of a run: a printing of shapes, the files, and what the parser does.\<close>

definition example_print_shape :: "Shape \<Rightarrow> string" where
  "example_print_shape s = ''['' @ join '','' (map print_unsigned s) @ '']''"

definition three_tensors :: "(string \<times> Shape) list" where
  "three_tensors = [(''t1'', [1, 3]), (''t2'', [2]), (''t3'', [4])]"

text \<open>
  In the examples a stream is what \<open>read_tensor_header\<close> reads from it: a header, or
  \<open>None\<close> for a file without one.
\<close>

definition example_files :: "string \<rightharpoonup> TensorHeader option" where
  "example_files =
     [''dir/net.nnef'' \<mapsto> None,
      ''dir/t1.dat'' \<mapsto> Some \<lparr>header_shape = [1, 3]\<rparr>,
      ''dir/t3.dat'' \<mapsto> Some \<lparr>header_shape = [4]\<rparr>,
      ''dir/t4.dat'' \<mapsto> None]"

definition example_outside :: "(string, TensorHeader option) Outside" where
  "example_outside =
     \<lparr>base_isAtomic = (\<lambda>proto args. True),
      print_value = (\<lambda>v. v),
      print_shape = example_print_shape,
      open_file = example_files,
      read_tensor_header = (\<lambda>bin. bin),
      parse = (\<lambda>flat layers is atomic.
                 \<lparr>events = [BeginGraph graph_f, Operation add_proto add_args, EndGraph graph_f],
                  thrown = None,
                  variableShapes = three_tensors\<rparr>)\<rparr>"

text \<open>
  A run in which the parser throws after the variable \<open>w\<close> has been recorded, and no
  file \<open>w.dat\<close> exists.
\<close>

definition failing_outside :: "(string, TensorHeader option) Outside" where
  "failing_outside =
     \<lparr>base_isAtomic = (\<lambda>proto args. True),
      print_value = (\<lambda>v. v),
      print_shape = example_print_shape,
      open_file = [''net.nnef'' \<mapsto> None],
      read_tensor_header = (\<lambda>bin. bin),
      parse = (\<lambda>flat layers is atomic.
                 \<lparr>events = [BeginGraph graph_f],
                  thrown = Some chain_error,
                  variableShapes = [(''w'', [1])]\<rparr>)\<rparr>"




section \<open>Properties\<close>

subsection \<open>The table of overrides\<close>

lemma atomics_step_well_formed:
  "atomics_step (c # name) st =
     (if c = CHR ''+'' \<or> c = CHR ''-'' then (emplace (fst st) name (c = CHR ''+''), snd st)
      else (fst st, snd st @ atomics_diagnostic))"
  by (simp add: atomics_step_def)

lemma atomics_step_empty: "atomics_step [] st = (fst st, snd st @ atomics_diagnostic)"
  by (simp add: atomics_step_def)

lemma atomics_step_malformed:
  "\<not> well_formed t \<Longrightarrow> atomics_step t st = (fst st, snd st @ atomics_diagnostic)"
  by (cases t) (simp_all add: well_formed_def atomics_step_empty atomics_step_well_formed)

lemma atomics_step_mark:
  "well_formed t \<Longrightarrow> atomics_step t st = (emplace (fst st) (tl t) (hd t = CHR ''+''), snd st)"
  by (cases t) (simp_all add: well_formed_def atomics_step_well_formed)

lemma atomics_loop_append:
  "atomics_loop (xs @ ys) st = atomics_loop ys (atomics_loop xs st)"
  by (induction xs arbitrary: st) simp_all

lemma atomics_loop_cout:
  "snd (atomics_loop ts st) =
     snd st @ concat (replicate (length (filter (\<lambda>t. \<not> well_formed t) ts)) atomics_diagnostic)"
proof (induction ts arbitrary: st)
  case Nil
  show ?case by simp
next
  case (Cons t ts)
  show ?case
  proof (cases "well_formed t")
    case True
    then show ?thesis by (simp add: Cons.IH atomics_step_mark)
  next
    case False
    then show ?thesis by (simp add: Cons.IH atomics_step_malformed)
  qed
qed

lemma atomics_step_table_only:
  "fst st = fst st' \<Longrightarrow> fst (atomics_step t st) = fst (atomics_step t st')"
  by (simp add: atomics_step_def Let_def)

lemma atomics_loop_table_only:
  "fst st = fst st' \<Longrightarrow> fst (atomics_loop ts st) = fst (atomics_loop ts st')"
proof (induction ts arbitrary: st st')
  case Nil
  then show ?case by simp
next
  case (Cons t ts)
  from Cons.prems have "fst (atomics_step t st) = fst (atomics_step t st')"
    by (rule atomics_step_table_only)
  then have "fst (atomics_loop ts (atomics_step t st)) = fst (atomics_loop ts (atomics_step t st'))"
    by (rule Cons.IH)
  then show ?case by simp
qed

lemma atomics_loop_table_filter:
  "fst (atomics_loop ts st) = fst (atomics_loop (filter well_formed ts) st)"
proof (induction ts arbitrary: st)
  case Nil
  show ?case by simp
next
  case (Cons t ts)
  show ?case
  proof (cases "well_formed t")
    case True
    then show ?thesis by (simp add: Cons.IH)
  next
    case False
    have "fst (atomics_loop ts (atomics_step t st)) = fst (atomics_loop (filter well_formed ts) (atomics_step t st))"
      by (rule Cons.IH)
    also have "\<dots> = fst (atomics_loop (filter well_formed ts) st)"
      by (rule atomics_loop_table_only) (simp add: atomics_step_malformed False)
    finally show ?thesis using False by simp
  qed
qed

lemma atomics_loop_table:
  "fst (atomics_loop ts st) name =
     (case fst st name of Some b \<Rightarrow> Some b | None \<Rightarrow> first_mark ts name)"
proof (induction ts arbitrary: st)
  case Nil
  show ?case by (simp add: first_mark_def split: option.splits)
next
  case (Cons t ts)
  show ?case
  proof (cases "well_formed t")
    case True
    then obtain c n where t: "t = c # n" and c: "c = CHR ''+'' \<or> c = CHR ''-''"
      by (auto simp: well_formed_def split: list.splits)
    show ?thesis
      using c by (auto simp: Cons.IH t atomics_step_well_formed emplace_def first_mark_def split: option.splits)
  next
    case False
    then have "t \<noteq> CHR ''+'' # name" "t \<noteq> CHR ''-'' # name"
      by (auto simp: well_formed_def)
    then show ?thesis
      using False by (simp add: Cons.IH atomics_step_malformed first_mark_def split: option.splits)
  qed
qed

lemma tokens_conv: "tokens ''-conv'' = [''-conv'']"
  by (simp add: tokens_def is_space_def)

lemma parseAtomics_conv: "parseAtomics (Some ''-conv'') = Inr ([''conv'' \<mapsto> False], [])"
  by (simp add: parseAtomics_def tokens_conv atomics_step_well_formed emplace_def)

text \<open>
  Claim C1. When the table of overrides has an entry for the name of the prototype,
  \<open>isAtomic\<close> returns the boolean of that entry, whatever the base class says; when it has
  none, \<open>isAtomic\<close> returns what the base class says. The list \<open>-conv\<close> is parsed into a
  table with which \<open>isAtomic\<close> is false on a prototype named \<open>conv\<close>, for every base class,
  so also for one that classifies \<open>conv\<close> as atomic.
\<close>

theorem isAtomic_override_precedence:
  "(atomics (proto_name proto) = Some b \<longrightarrow> isAtomic atomics base proto args = b)
   \<and> (atomics (proto_name proto) = None \<longrightarrow> isAtomic atomics base proto args = base proto args)
   \<and> (\<exists>table. parseAtomics (Some ''-conv'') = Inr (table, [])
         \<and> (proto_name proto = ''conv'' \<longrightarrow> isAtomic table base proto args = False))"
  by (simp add: isAtomic_def parseAtomics_conv)

theorem isAtomic_override_precedence_witness:
  "isAtomic [''conv'' \<mapsto> False] (\<lambda>p a. True) conv_proto (Map.empty :: string Dictionary) = False
   \<and> isAtomic Map.empty (\<lambda>p a. True) conv_proto (Map.empty :: string Dictionary) = True
   \<and> (\<exists>table. parseAtomics (Some ''-conv'') = Inr (table, [])
         \<and> isAtomic table (\<lambda>p a. True) conv_proto (Map.empty :: string Dictionary) = False)"
  using isAtomic_override_precedence [of "[''conv'' \<mapsto> False]" conv_proto False "\<lambda>p a. True" "Map.empty :: string Dictionary"]
    isAtomic_override_precedence [of Map.empty conv_proto False "\<lambda>p a. True" "Map.empty :: string Dictionary"]
  by (simp add: conv_proto_def)

lemma tokens_example: "tokens ''+a bad -b'' = [''+a'', ''bad'', ''-b'']"
  by (simp add: tokens_def is_space_def)

lemma parseAtomics_example:
  "parseAtomics (Some ''+a bad -b'') = Inr ([''a'' \<mapsto> True, ''b'' \<mapsto> False], atomics_diagnostic)"
  by (simp add: parseAtomics_def tokens_example atomics_step_def emplace_def)

lemma first_mark_none:
  "CHR ''+'' # name \<notin> set ts \<Longrightarrow> CHR ''-'' # name \<notin> set ts \<Longrightarrow> first_mark ts name = None"
  by (induction ts) (auto simp: first_mark_def)

lemma first_mark_first:
  "c = CHR ''+'' \<or> c = CHR ''-'' \<Longrightarrow> CHR ''+'' # name \<notin> set xs \<Longrightarrow> CHR ''-'' # name \<notin> set xs
     \<Longrightarrow> first_mark (xs @ (c # name) # ys) name = Some (c = CHR ''+'')"
  by (induction xs) (auto simp: first_mark_def)

lemma atomics_loop_empty_table: "fst (atomics_loop ts (Map.empty, out)) = first_mark ts"
  by (rule ext) (simp add: atomics_loop_table)

lemma parseAtomics_table:
  "parseAtomics (Some s) = Inr (first_mark (tokens s), snd (atomics_loop (tokens s) (Map.empty, [])))"
  by (simp add: parseAtomics_def prod_eq_iff atomics_loop_empty_table)

lemma concat_replicate_Suc: "concat (replicate (Suc n) d) = concat (replicate n d) @ d"
  by (induction n) simp_all

lemma atomics_loop_skip:
  assumes "\<not> well_formed bad"
  shows "atomics_loop (xs @ bad # ys) st =
           (fst (atomics_loop (xs @ ys) st), snd (atomics_loop (xs @ ys) st) @ atomics_diagnostic)"
proof -
  have "fst (atomics_loop (xs @ bad # ys) st) = fst (atomics_loop (xs @ ys) st)"
    using assms by (simp add: atomics_loop_table_filter [of "xs @ bad # ys"] atomics_loop_table_filter [of "xs @ ys"])
  moreover have "snd (atomics_loop (xs @ bad # ys) st) = snd (atomics_loop (xs @ ys) st) @ atomics_diagnostic"
    using assms by (simp add: atomics_loop_cout concat_replicate_Suc del: replicate.simps)
  ultimately show ?thesis by (simp add: prod_eq_iff)
qed

text \<open>
  Claim C2, as amended. The list \<open>+a bad -b\<close> gives the table \<open>{a: true, b: false}\<close> and one
  diagnostic. For every list: the call returns; one diagnostic is written for each token that
  does not start with \<open>+\<close> or \<open>-\<close>, and nothing else is written; the table is the one built
  from the tokens that start with \<open>+\<close> or \<open>-\<close> alone; a token that starts with \<open>+\<close> maps the
  rest of it to true, and one that starts with \<open>-\<close> maps it to false, when no token before it
  marks the same name; a name that no token marks has no entry. Moreover, taking a
  malformed token out of any place of the sequence of tokens changes nothing but the one
  diagnostic.
\<close>

theorem parseAtomics_malformed_tolerance:
  "parseAtomics (Some ''+a bad -b'') = Inr ([''a'' \<mapsto> True, ''b'' \<mapsto> False], atomics_diagnostic)
   \<and> (\<exists>table out. parseAtomics (Some s) = Inr (table, out)
         \<and> out = concat (replicate (length (filter (\<lambda>t. \<not> well_formed t) (tokens s))) atomics_diagnostic)
         \<and> table = fst (atomics_loop (filter well_formed (tokens s)) (Map.empty, []))
         \<and> (\<forall>xs c name ys.
               tokens s = xs @ (c # name) # ys \<and> (c = CHR ''+'' \<or> c = CHR ''-'')
               \<and> CHR ''+'' # name \<notin> set xs \<and> CHR ''-'' # name \<notin> set xs
               \<longrightarrow> table name = Some (c = CHR ''+''))
         \<and> (\<forall>name. CHR ''+'' # name \<notin> set (tokens s) \<and> CHR ''-'' # name \<notin> set (tokens s)
               \<longrightarrow> table name = None))
   \<and> (\<forall>xs bad ys. \<not> well_formed bad \<longrightarrow>
         atomics_loop (xs @ bad # ys) st =
           (fst (atomics_loop (xs @ ys) st), snd (atomics_loop (xs @ ys) st) @ atomics_diagnostic))"
proof (intro conjI exI allI impI)
  show "parseAtomics (Some ''+a bad -b'') = Inr ([''a'' \<mapsto> True, ''b'' \<mapsto> False], atomics_diagnostic)"
    by (rule parseAtomics_example)
  show "parseAtomics (Some s) = Inr (first_mark (tokens s), snd (atomics_loop (tokens s) (Map.empty, [])))"
    by (rule parseAtomics_table)
  show "snd (atomics_loop (tokens s) (Map.empty, [])) =
          concat (replicate (length (filter (\<lambda>t. \<not> well_formed t) (tokens s))) atomics_diagnostic)"
    by (simp add: atomics_loop_cout)
  show "first_mark (tokens s) = fst (atomics_loop (filter well_formed (tokens s)) (Map.empty, []))"
    using atomics_loop_table_filter [of "tokens s" "(Map.empty, [])"]
    by (simp add: atomics_loop_empty_table)
  show "first_mark (tokens s) name = Some (c = CHR ''+'')"
    if "tokens s = xs @ (c # name) # ys \<and> (c = CHR ''+'' \<or> c = CHR ''-'')
        \<and> CHR ''+'' # name \<notin> set xs \<and> CHR ''-'' # name \<notin> set xs" for xs c name ys
    using that by (simp add: first_mark_first)
  show "first_mark (tokens s) name = None"
    if "CHR ''+'' # name \<notin> set (tokens s) \<and> CHR ''-'' # name \<notin> set (tokens s)" for name
    using that by (simp add: first_mark_none)
  show "atomics_loop (xs @ bad # ys) st =
          (fst (atomics_loop (xs @ ys) st), snd (atomics_loop (xs @ ys) st) @ atomics_diagnostic)"
    if "\<not> well_formed bad" for xs bad ys
    using that by (rule atomics_loop_skip)
qed

theorem parseAtomics_malformed_tolerance_witness:
  "(\<exists>table out. parseAtomics (Some ''+a bad -b'') = Inr (table, out)
      \<and> out = atomics_diagnostic
      \<and> table ''a'' = Some True \<and> table ''b'' = Some False \<and> table ''bad'' = None \<and> table ''ad'' = None)
   \<and> atomics_loop ([''+a''] @ ''bad'' # [''-b'']) (Map.empty, []) =
        (fst (atomics_loop ([''+a''] @ [''-b'']) (Map.empty, [])),
         snd (atomics_loop ([''+a''] @ [''-b'']) (Map.empty, [])) @ atomics_diagnostic)"
proof -
  have ta: "tokens ''+a bad -b'' = [] @ (CHR ''+'' # ''a'') # [''bad'', ''-b'']"
    and tb: "tokens ''+a bad -b'' = [''+a'', ''bad''] @ (CHR ''-'' # ''b'') # []"
    by (simp_all add: tokens_example)
  note w = parseAtomics_malformed_tolerance [of "''+a bad -b''" "(Map.empty, [])"]
  from w obtain table out where p: "parseAtomics (Some ''+a bad -b'') = Inr (table, out)"
    and o: "out = concat (replicate (length (filter (\<lambda>t. \<not> well_formed t) (tokens ''+a bad -b''))) atomics_diagnostic)"
    and f: "\<forall>xs c name ys.
               tokens ''+a bad -b'' = xs @ (c # name) # ys \<and> (c = CHR ''+'' \<or> c = CHR ''-'')
               \<and> CHR ''+'' # name \<notin> set xs \<and> CHR ''-'' # name \<notin> set xs
               \<longrightarrow> table name = Some (c = CHR ''+'')"
    and n: "\<forall>name. CHR ''+'' # name \<notin> set (tokens ''+a bad -b'') \<and> CHR ''-'' # name \<notin> set (tokens ''+a bad -b'')
               \<longrightarrow> table name = None"
    by blast
  from o have 1: "out = atomics_diagnostic"
    by (simp add: tokens_example well_formed_def)
  from f [rule_format, of "[]" "CHR ''+''" "''a''" "[''bad'', ''-b'']"] ta
  have 2: "table ''a'' = Some True" by simp
  from f [rule_format, of "[''+a'', ''bad'']" "CHR ''-''" "''b''" "[]"] tb
  have 3: "table ''b'' = Some False" by simp
  from n [rule_format, of "''bad''"] have 4: "table ''bad'' = None"
    by (simp add: tokens_example)
  from n [rule_format, of "''ad''"] have 5: "table ''ad'' = None"
    by (simp add: tokens_example)
  from w have skip: "\<forall>xs bad ys. \<not> well_formed bad \<longrightarrow>
         atomics_loop (xs @ bad # ys) (Map.empty, []) =
           (fst (atomics_loop (xs @ ys) (Map.empty, [])),
            snd (atomics_loop (xs @ ys) (Map.empty, [])) @ atomics_diagnostic)"
    by blast
  have "\<not> well_formed ''bad''"
    by (simp add: well_formed_def)
  with skip [rule_format, of "''bad''" "[''+a'']" "[''-b'']"]
  have 6: "atomics_loop ([''+a''] @ ''bad'' # [''-b'']) (Map.empty, []) =
        (fst (atomics_loop ([''+a''] @ [''-b'']) (Map.empty, [])),
         snd (atomics_loop ([''+a''] @ [''-b'']) (Map.empty, [])) @ atomics_diagnostic)"
    by blast
  from p 1 2 3 4 5 6 show ?thesis by blast
qed

text \<open>
  Claim C2 as stated fails: in the list \<open>-a +a\<close> the second token starts with \<open>+\<close>, and the
  name \<open>a\<close> is mapped to false all the same, since the first token has marked it.
\<close>

theorem parseAtomics_later_mark_counterexample:
  "tokens ''-a +a'' = [''-a'', ''+a'']
   \<and> parseAtomics (Some ''-a +a'') = Inr ([''a'' \<mapsto> False], [])
   \<and> [''a'' \<mapsto> False] ''a'' \<noteq> Some True"
  by (simp add: parseAtomics_def tokens_def is_space_def atomics_step_def emplace_def)

text \<open>
  Claim C9. When a name is marked by more than one token, the table keeps the boolean of
  the first of them: the entry of a name is decided by the first token that is \<open>+name\<close> or
  \<open>-name\<close>, whatever follows it. So \<open>+a -a\<close> gives \<open>{a: true}\<close> and \<open>-a bad +a\<close> gives
  \<open>{a: false}\<close>, and no diagnostic is written for the later token.
\<close>

theorem parseAtomics_first_token_wins:
  "(\<exists>table out. parseAtomics (Some s) = Inr (table, out)
      \<and> (\<forall>name. table name = first_mark (tokens s) name)
      \<and> (\<forall>xs c name ys.
            tokens s = xs @ (c # name) # ys \<and> (c = CHR ''+'' \<or> c = CHR ''-'')
            \<and> CHR ''+'' # name \<notin> set xs \<and> CHR ''-'' # name \<notin> set xs
            \<longrightarrow> table name = Some (c = CHR ''+'')))
   \<and> parseAtomics (Some ''+a -a'') = Inr ([''a'' \<mapsto> True], [])
   \<and> parseAtomics (Some ''-a bad +a'') = Inr ([''a'' \<mapsto> False], atomics_diagnostic)"
proof (intro conjI exI allI impI)
  show "parseAtomics (Some s) = Inr (first_mark (tokens s), snd (atomics_loop (tokens s) (Map.empty, [])))"
    by (rule parseAtomics_table)
  show "first_mark (tokens s) name = first_mark (tokens s) name" for name
    by (rule refl)
  show "first_mark (tokens s) name = Some (c = CHR ''+'')"
    if "tokens s = xs @ (c # name) # ys \<and> (c = CHR ''+'' \<or> c = CHR ''-'')
        \<and> CHR ''+'' # name \<notin> set xs \<and> CHR ''-'' # name \<notin> set xs" for xs c name ys
    using that by (simp add: first_mark_first)
  show "parseAtomics (Some ''+a -a'') = Inr ([''a'' \<mapsto> True], [])"
    by (simp add: parseAtomics_def tokens_def is_space_def atomics_step_def emplace_def)
  show "parseAtomics (Some ''-a bad +a'') = Inr ([''a'' \<mapsto> False], atomics_diagnostic)"
    by (simp add: parseAtomics_def tokens_def is_space_def atomics_step_def emplace_def)
qed

theorem parseAtomics_first_token_wins_witness:
  "\<exists>table out. parseAtomics (Some ''+a b -a'') = Inr (table, out) \<and> table ''a'' = Some True"
proof -
  have t: "tokens ''+a b -a'' = [] @ (CHR ''+'' # ''a'') # [''b'', ''-a'']"
    by (simp add: tokens_def is_space_def)
  from parseAtomics_first_token_wins [of "''+a b -a''"]
  obtain table out where p: "parseAtomics (Some ''+a b -a'') = Inr (table, out)"
    and f: "\<forall>xs c name ys.
            tokens ''+a b -a'' = xs @ (c # name) # ys \<and> (c = CHR ''+'' \<or> c = CHR ''-'')
            \<and> CHR ''+'' # name \<notin> set xs \<and> CHR ''-'' # name \<notin> set xs
            \<longrightarrow> table name = Some (c = CHR ''+'')"
    by blast
  from f [rule_format, of "[]" "CHR ''+''" "''a''" "[''b'', ''-a'']"] t
  have "table ''a'' = Some (CHR ''+'' = CHR ''+'')"
    by simp
  with p show ?thesis by simp
qed

subsection \<open>The renderer\<close>

lemma join_Cons: "join sep (x # xs) = x @ (if xs \<noteq> [] then sep else []) @ join sep xs"
  by (cases xs) simp_all

lemma names_loop_join:
  "names_loop i ps = (if i \<noteq> 0 \<and> ps \<noteq> [] then '', '' else []) @ join '', '' (map typed_name ps)"
proof (induction ps arbitrary: i)
  case Nil
  show ?case by simp
next
  case (Cons p ps)
  show ?case by (simp add: Cons.IH join_Cons)
qed

lemma beginGraph_join:
  "beginGraph proto =
     ''graph '' @ proto_name proto @ ''( '' @ join '', '' (map typed_name (proto_params proto))
     @ '' ) -> ( '' @ join '', '' (map typed_name (proto_results proto)) @ '' )'' @ endl @ ''{'' @ endl"
  by (simp add: beginGraph_def names_loop_join)

text \<open>
  Claim C3, as amended. \<open>beginGraph\<close> writes \<open>graph <name>( <p0>, <p1>, ... ) -> ( <r0>, ... )\<close>
  with the names only, separated by a comma and a space, with no separator after the last,
  and with the parentheses and the spaces inside them also when there is no name; then it
  ends the line and writes the opening brace on a line of its own. For \<open>f\<close> with the
  parameters \<open>x\<close>, \<open>y\<close> and the result \<open>z\<close> the text is \<open>graph f( x, y ) -> ( z )\<close>, a line
  break, \<open>{\<close>, a line break.
\<close>

theorem beginGraph_text:
  "beginGraph proto =
     ''graph '' @ proto_name proto @ ''( '' @ join '', '' (map typed_name (proto_params proto))
     @ '' ) -> ( '' @ join '', '' (map typed_name (proto_results proto)) @ '' )'' @ endl @ ''{'' @ endl
   \<and> beginGraph graph_f = ''graph f( x, y ) -> ( z )'' @ endl @ ''{'' @ endl
   \<and> beginGraph \<lparr>proto_name = ''g'', proto_params = [], proto_results = []\<rparr>
       = ''graph g(  ) -> (  )'' @ endl @ ''{'' @ endl"
  by (simp add: beginGraph_join graph_f_def tensor_def)

text \<open>
  Claim C3 as stated fails: the text written for \<open>f\<close> is not \<open>graph f( x, y ) -> ( z ) {\<close>.
\<close>

theorem beginGraph_counterexample:
  "beginGraph graph_f \<noteq> ''graph f( x, y ) -> ( z ) {''"
  by (simp add: beginGraph_def graph_f_def tensor_def endl_def)

lemma results_loop_join:
  assumes "\<forall>r \<in> set rs. typed_name r \<in> dom args"
  shows "results_loop pv args i rs =
           Inr ((if i \<noteq> 0 \<and> rs \<noteq> [] then '', '' else [])
                @ join '', '' (map (\<lambda>r. pv (the (args (typed_name r)))) rs))"
  using assms
proof (induction rs arbitrary: i)
  case Nil
  show ?case by simp
next
  case (Cons r rs)
  from Cons.prems obtain v where v: "args (typed_name r) = Some v" by auto
  from Cons.prems have "\<forall>r \<in> set rs. typed_name r \<in> dom args" by simp
  then have IH: "results_loop pv args (Suc i) rs =
           Inr ((if rs \<noteq> [] then '', '' else [])
                @ join '', '' (map (\<lambda>r. pv (the (args (typed_name r)))) rs))"
    by (simp add: Cons.IH)
  show ?case by (simp add: IH v dict_at_def join_Cons)
qed

lemma params_loop_join:
  assumes "\<forall>p \<in> set ps. typed_name p \<in> dom args"
  shows "params_loop pv args i ps =
           Inr ((if i \<noteq> 0 \<and> ps \<noteq> [] then '', '' else []) @ join '', '' (map (slot_text pv args) ps))"
  using assms
proof (induction ps arbitrary: i)
  case Nil
  show ?case by simp
next
  case (Cons p ps)
  from Cons.prems obtain v where v: "args (typed_name p) = Some v" by auto
  from Cons.prems have "\<forall>p \<in> set ps. typed_name p \<in> dom args" by simp
  then have IH: "params_loop pv args (Suc i) ps =
           Inr ((if ps \<noteq> [] then '', '' else []) @ join '', '' (map (slot_text pv args) ps))"
    by (simp add: Cons.IH)
  have slot: "slot_text pv args p = (if typed_isTensor p then [] else typed_name p @ '' = '') @ pv v"
    by (simp add: slot_text_def v)
  show ?case by (simp add: IH v dict_at_def join_Cons slot)
qed

text \<open>
  Claim C4. When the dictionary of arguments binds the name of every result and of every
  parameter, \<open>operation\<close> writes one line: a tab, the values bound to the declared names of
  the results, \<open> = \<close>, the name of the prototype, \<open>(\<close> with no space after it, the slots of
  the parameters, \<open>)\<close> and the end of the line. A slot is the bound value, after
  \<open>name = \<close> when the parameter is not a tensor; results and slots are separated by a comma and
  a space.
\<close>

theorem operation_line:
  assumes "\<forall>r \<in> set (proto_results proto). typed_name r \<in> dom args"
    and "\<forall>p \<in> set (proto_params proto). typed_name p \<in> dom args"
  shows "operation pv proto args =
           Inr ([CHR 0x09]
                @ join '', '' (map (\<lambda>r. pv (the (args (typed_name r)))) (proto_results proto))
                @ '' = '' @ proto_name proto @ ''(''
                @ join '', '' (map (slot_text pv args) (proto_params proto))
                @ '')'' @ endl)"
  by (simp add: operation_def results_loop_join [OF assms(1)] params_loop_join [OF assms(2)])

text \<open>
  The example of claim C4: \<open>add(a, b) -> (c)\<close> bound to \<open>t1\<close>, \<open>t2\<close>, \<open>t3\<close>, and an
  operation with the attribute \<open>axis\<close> bound to \<open>1\<close>.
\<close>

theorem operation_line_witness:
  "operation (\<lambda>v. v) add_proto add_args = Inr ([CHR 0x09] @ ''t3 = add(t1, t2)'' @ endl)
   \<and> operation (\<lambda>v. v) sum_proto sum_args = Inr ([CHR 0x09] @ ''t2 = sum(t1, axis = 1)'' @ endl)"
proof -
  have "\<forall>r \<in> set (proto_results add_proto). typed_name r \<in> dom add_args"
    and "\<forall>p \<in> set (proto_params add_proto). typed_name p \<in> dom add_args"
    by (simp_all add: add_proto_def add_args_def tensor_def)
  from operation_line [OF this, of "\<lambda>v. v"]
  have 1: "operation (\<lambda>v. v) add_proto add_args = Inr ([CHR 0x09] @ ''t3 = add(t1, t2)'' @ endl)"
    by (simp add: add_proto_def add_args_def tensor_def slot_text_def)
  have "\<forall>r \<in> set (proto_results sum_proto). typed_name r \<in> dom sum_args"
    and "\<forall>p \<in> set (proto_params sum_proto). typed_name p \<in> dom sum_args"
    by (simp_all add: sum_proto_def sum_args_def tensor_def attribute_def)
  from operation_line [OF this, of "\<lambda>v. v"]
  have 2: "operation (\<lambda>v. v) sum_proto sum_args = Inr ([CHR 0x09] @ ''t2 = sum(t1, axis = 1)'' @ endl)"
    by (simp add: sum_proto_def sum_args_def tensor_def attribute_def slot_text_def)
  from 1 2 show ?thesis by simp
qed

subsection \<open>The report of an error\<close>

lemma origin_loop_origins: "origin_loop outer = concat (map evaluated_from (origins outer))"
  by (induction outer rule: origins.induct) simp_all

lemma origin_loop_Some: "origin_loop (Some p) = evaluated_from p @ origin_loop (origin p)"
  by (cases p) simp

text \<open>
  Claim C5. The report of an error is the line with the innermost position and the message,
  once, and then one \<open>evaluated from\<close> line for each position of the chain of origins, the
  nearest first; the loop writes nothing when the origin is absent, and one line before going
  on with the next origin otherwise. For the chain (3,5), (10,2), (1,1) there are two such
  lines, for (10,2) and then for (1,1).
\<close>

theorem report_error_chain:
  "report_error e =
     ''Parse error: ['' @ print_unsigned (line (position e)) @ '':''
     @ print_unsigned (column (position e)) @ ''] '' @ what e @ endl
     @ concat (map evaluated_from (origins (origin (position e))))
   \<and> origin_loop None = []
   \<and> origin_loop (Some p) = evaluated_from p @ origin_loop (origin p)
   \<and> origins (origin (position chain_error)) = [Position 10 2 (Some (Position 1 1 None)), Position 1 1 None]
   \<and> report_error chain_error =
       ''Parse error: [3:5] undefined identifier'' @ endl
       @ ''... evaluated from [10:2]'' @ endl
       @ ''... evaluated from [1:1]'' @ endl"
proof (intro conjI)
  show "report_error chain_error =
       ''Parse error: [3:5] undefined identifier'' @ endl
       @ ''... evaluated from [10:2]'' @ endl
       @ ''... evaluated from [1:1]'' @ endl"
    by (simp add: report_error_def chain_error_def evaluated_from_def print_unsigned.simps digit_def)
  show "report_error e =
     ''Parse error: ['' @ print_unsigned (line (position e)) @ '':''
     @ print_unsigned (column (position e)) @ ''] '' @ what e @ endl
     @ concat (map evaluated_from (origins (origin (position e))))"
    by (simp add: report_error_def origin_loop_origins)
  show "origin_loop None = []"
    by simp
  show "origin_loop (Some p) = evaluated_from p @ origin_loop (origin p)"
    by (rule origin_loop_Some)
  show "origins (origin (position chain_error)) = [Position 10 2 (Some (Position 1 1 None)), Position 1 1 None]"
    by (simp add: chain_error_def)
qed

subsection \<open>The options\<close>















subsection \<open>The check of the binary files\<close>

lemma find_last_loop_absent: "c \<notin> set xs \<Longrightarrow> find_last_loop c i xs found = found"
  by (induction xs arbitrary: i) auto

lemma find_last_loop_last:
  "c \<notin> set post \<Longrightarrow> find_last_loop c i (pre @ c # post) found = i + length pre"
  by (induction pre arbitrary: i found) (simp_all add: find_last_loop_absent)

lemma binaryFilename_no_slash:
  "CHR ''/'' \<notin> set filename \<Longrightarrow> binaryFilename filename name = name @ ''.dat''"
  by (simp add: binaryFilename_def find_last_of_def find_last_loop_absent npos_def)

lemma binaryFilename_slash:
  assumes "CHR ''/'' \<notin> set base" and "length (dir @ ''/'' @ base) < 2 ^ 64"
  shows "binaryFilename (dir @ ''/'' @ base) name = dir @ ''/'' @ name @ ''.dat''"
proof -
  have "find_last_of (dir @ ''/'' @ base) CHR ''/'' = length dir"
    using assms(1) by (simp add: find_last_of_def find_last_loop_last)
  moreover have "(length dir + 1) mod 2 ^ 64 = length dir + 1"
    using assms(2) by simp
  ultimately show ?thesis
    by (simp add: binaryFilename_def)
qed

lemma shape_equal_eq: "shape_equal a b \<longleftrightarrow> a = b"
  by (auto simp: shape_equal_def list_eq_iff_zip_eq list_all_iff)

lemma shape_equal_nth:
  "shape_equal a b \<longleftrightarrow> length a = length b \<and> (\<forall>i < length a. a ! i = b ! i)"
  by (simp add: shape_equal_eq list_eq_iff_nth_eq)

lemma check_entry_silent:
  assumes "op (binaryFilename fn name) = Some bin" and "rd bin = Some header"
  shows "check_entry ps op rd fn (name, declared) = [] \<longleftrightarrow> shape_equal (header_shape header) declared"
  using assms by (simp add: check_entry_def)

text \<open>
  Claim C8. The path of the binary file of a variable is the prefix of the path of the
  description up to and including its last \<open>/\<close> (nothing, when the path has no \<open>/\<close>), then
  the name of the variable, then \<open>.dat\<close>. Two shapes are equal iff they have the same length
  and the same dimension at every index, and an entry whose file opens and has a header is
  reported iff its shapes are not equal in this sense.
\<close>

theorem binaryFilename_and_shape:
  "(CHR ''/'' \<notin> set base \<and> length (dir @ ''/'' @ base) < 2 ^ 64
      \<longrightarrow> binaryFilename (dir @ ''/'' @ base) name = dir @ ''/'' @ name @ ''.dat'')
   \<and> (CHR ''/'' \<notin> set filename \<longrightarrow> binaryFilename filename name = name @ ''.dat'')
   \<and> (shape_equal a b \<longleftrightarrow> length a = length b \<and> (\<forall>i < length a. a ! i = b ! i))
   \<and> (op (binaryFilename fn name) = Some bin \<and> rd bin = Some header
        \<longrightarrow> (check_entry ps op rd fn (name, declared) = []
              \<longleftrightarrow> length (header_shape header) = length declared
                  \<and> (\<forall>i < length declared. header_shape header ! i = declared ! i)))"
proof (intro conjI impI)
  show "binaryFilename (dir @ ''/'' @ base) name = dir @ ''/'' @ name @ ''.dat''"
    if "CHR ''/'' \<notin> set base \<and> length (dir @ ''/'' @ base) < 2 ^ 64"
    using that binaryFilename_slash [of base dir name] by blast
  show "binaryFilename filename name = name @ ''.dat''" if "CHR ''/'' \<notin> set filename"
    using that by (rule binaryFilename_no_slash)
  show "shape_equal a b \<longleftrightarrow> length a = length b \<and> (\<forall>i < length a. a ! i = b ! i)"
    by (rule shape_equal_nth)
  show "check_entry ps op rd fn (name, declared) = []
          \<longleftrightarrow> length (header_shape header) = length declared
              \<and> (\<forall>i < length declared. header_shape header ! i = declared ! i)"
    if "op (binaryFilename fn name) = Some bin \<and> rd bin = Some header"
    using that by (auto simp: check_entry_silent shape_equal_nth)
qed

theorem binaryFilename_and_shape_witness:
  "binaryFilename ''dir/net.nnef'' ''t1'' = ''dir/t1.dat''
   \<and> binaryFilename ''net.nnef'' ''w'' = ''w.dat''
   \<and> shape_equal [1, 3, 224, 224] [1, 3, 224, 224]
   \<and> \<not> shape_equal [1, 3, 224, 224] [1, 3, 225, 224]
   \<and> check_entry example_print_shape example_files (\<lambda>bin. bin) ''dir/net.nnef'' (''t1'', [1, 3]) = []
   \<and> check_entry example_print_shape example_files (\<lambda>bin. bin) ''dir/net.nnef'' (''t1'', [3, 1]) \<noteq> []"
proof -
  have open1: "example_files (binaryFilename ''dir/net.nnef'' ''t1'') = Some (Some \<lparr>header_shape = [1, 3]\<rparr>)"
    by (simp add: example_files_def binaryFilename_def find_last_of_def npos_def)
  note w = binaryFilename_and_shape [of "''net.nnef''" "''dir''" "''t1''" "''net.nnef''"
      "[1, 3, 224, 224]" "[1, 3, 224, 224]" example_files "''dir/net.nnef''"
      "Some \<lparr>header_shape = [1, 3]\<rparr>" "\<lambda>bin. bin" "\<lparr>header_shape = [1, 3]\<rparr>" example_print_shape "[1, 3]"]
  note w' = binaryFilename_and_shape [of "''net.nnef''" "''dir''" "''w''" "''net.nnef''"
      "[1, 3, 224, 224]" "[1, 3, 225, 224]" example_files "''dir/net.nnef''"
      "Some \<lparr>header_shape = [1, 3]\<rparr>" "\<lambda>bin. bin" "\<lparr>header_shape = [1, 3]\<rparr>" example_print_shape "[3, 1]"]
  note w'' = binaryFilename_and_shape [of "''net.nnef''" "''dir''" "''t1''" "''net.nnef''"
      "[1, 3, 224, 224]" "[1, 3, 225, 224]" example_files "''dir/net.nnef''"
      "Some \<lparr>header_shape = [1, 3]\<rparr>" "\<lambda>bin. bin" "\<lparr>header_shape = [1, 3]\<rparr>" example_print_shape "[3, 1]"]
  from w have 1: "binaryFilename ''dir/net.nnef'' ''t1'' = ''dir/t1.dat''"
    by simp
  from w' have 2: "binaryFilename ''net.nnef'' ''w'' = ''w.dat''"
    by simp
  from w have 3: "shape_equal [1, 3, 224, 224] [1, 3, 224, 224]"
    by simp
  from w' have 4: "\<not> shape_equal [1, 3, 224, 224] [1, 3, 225, 224]"
    by (simp add: All_less_Suc)
  from w open1
  have 5: "check_entry example_print_shape example_files (\<lambda>bin. bin) ''dir/net.nnef'' (''t1'', [1, 3]) = []"
    by simp
  from w'' open1
  have 6: "check_entry example_print_shape example_files (\<lambda>bin. bin) ''dir/net.nnef'' (''t1'', [3, 1]) \<noteq> []"
    by (simp add: All_less_Suc)
  from 1 2 3 4 5 6 show ?thesis by simp
qed

subsection \<open>The loop over the variable shapes, and when it runs\<close>

lemma validate_loop_append:
  "validate_loop ps op rd fn (xs @ ys) = validate_loop ps op rd fn xs @ validate_loop ps op rd fn ys"
  by (induction xs) simp_all

lemma validate_loop_concat:
  "validate_loop ps op rd fn entries = concat (map (check_entry ps op rd fn) entries)"
  by (induction entries) simp_all

lemma parse_and_check_returns:
  assumes "print_events (print_value outside) (events (run_parser outside stream (fst st))) = Inr printed"
  shows "\<exists>run. parse_and_check outside filename stream st = Inr run
           \<and> return_value run = 0
           \<and> cerr run = snd (snd st)
                @ (if opt_binary (fst st)
                   then validate_loop (print_shape outside) (open_file outside)
                          (read_tensor_header outside) filename
                          (variableShapes (run_parser outside stream (fst st)))
                   else [])"
  using assms by (simp add: parse_and_check_def Let_def)

lemma example_validate:
  "validate_loop example_print_shape example_files (\<lambda>bin. bin) ''dir/net.nnef'' three_tensors
     = ''Could not open file: dir/t2.dat'' @ endl"
  by (simp add: three_tensors_def check_entry_def example_files_def binaryFilename_def
        find_last_of_def npos_def shape_equal_def)

lemma example_binary_options:
  "options_loop [prog, file, ''--binary''] 2 (no_options, [], [])
     = Inr (no_options\<lparr>opt_binary := True\<rparr>, [], [])"
  by (simp add: options_loop.simps [of _ 2] options_loop.simps [of _ 3])

lemma example_events:
  "print_events (\<lambda>v. v) [BeginGraph graph_f, Operation add_proto add_args, EndGraph graph_f]
     = Inr (''graph f( x, y ) -> ( z )'' @ endl @ ''{'' @ endl
            @ [CHR 0x09] @ ''t3 = add(t1, t2)'' @ endl
            @ ''}'' @ endl)"
  by (simp add: beginGraph_def endGraph_def operation_def graph_f_def add_proto_def add_args_def
        tensor_def dict_at_def)

lemma example_main:
  "main example_outside [''nnef-validator'', ''dir/net.nnef'', ''--binary'']
     = Inr \<lparr>return_value = 0,
            cout = ''graph f( x, y ) -> ( z )'' @ endl @ ''{'' @ endl
                   @ [CHR 0x09] @ ''t3 = add(t1, t2)'' @ endl
                   @ ''}'' @ endl @ ''Parse succeeded'' @ endl,
            cerr = ''Could not open file: dir/t2.dat'' @ endl\<rparr>"
proof -
  have "open_file example_outside ''dir/net.nnef'' = Some None"
    by (simp add: example_outside_def example_files_def)
  moreover have "run_parser example_outside None (no_options\<lparr>opt_binary := True\<rparr>)
      = \<lparr>events = [BeginGraph graph_f, Operation add_proto add_args, EndGraph graph_f],
         thrown = None, variableShapes = three_tensors\<rparr>"
    by (simp add: run_parser_def example_outside_def)
  moreover have "print_value example_outside = (\<lambda>v. v)"
    and "print_shape example_outside = example_print_shape"
    and "read_tensor_header example_outside = (\<lambda>bin. bin)"
    and "open_file example_outside = example_files"
    by (simp_all add: example_outside_def)
  ultimately show ?thesis
    by (simp add: main_def example_binary_options parse_and_check_def Let_def example_events
          example_validate del: print_events.simps)
qed

text \<open>
  Claim C7. The loop writes, for every entry in turn, what the check of that entry alone
  writes: the entries before and after an entry are checked whatever its check finds. A
  file that does not open, a header that cannot be read and a shape that differs are each
  reported by one line, and an entry that matches is silent. Whenever the events of the
  parser have been printed, \<open>main\<close> goes on to return 0 with these lines on the standard
  error. With three tensors of which the second has no file and the other two match, the
  only line is the one for the second.
\<close>

theorem validate_loop_partial_failure:
  "validate_loop ps op rd fn (xs @ it # ys)
     = validate_loop ps op rd fn xs @ check_entry ps op rd fn it @ validate_loop ps op rd fn ys
   \<and> validate_loop ps op rd fn entries = concat (map (check_entry ps op rd fn) entries)
   \<and> (op (binaryFilename fn (fst it)) = None
        \<longrightarrow> check_entry ps op rd fn it = ''Could not open file: '' @ binaryFilename fn (fst it) @ endl)
   \<and> (op (binaryFilename fn (fst it)) = Some bin \<and> rd bin = None
        \<longrightarrow> check_entry ps op rd fn it
            = ''Failed to read binary header from file: '' @ binaryFilename fn (fst it) @ endl)
   \<and> (op (binaryFilename fn (fst it)) = Some bin \<and> rd bin = Some header
        \<longrightarrow> check_entry ps op rd fn it
            = (if shape_equal (header_shape header) (snd it) then []
               else ''Shape '' @ ps (header_shape header) @ '' in tensor file ''
                    @ [CHR 0x27] @ binaryFilename fn (fst it) @ [CHR 0x27]
                    @ '' does not match shape '' @ ps (snd it)
                    @ '' defined in network structure'' @ endl))
   \<and> (print_events (print_value outside) (events (run_parser outside stream (fst st))) = Inr printed
        \<longrightarrow> (\<exists>run. parse_and_check outside filename stream st = Inr run
              \<and> return_value run = 0
              \<and> cerr run = snd (snd st)
                   @ (if opt_binary (fst st)
                      then validate_loop (print_shape outside) (open_file outside)
                             (read_tensor_header outside) filename
                             (variableShapes (run_parser outside stream (fst st)))
                      else [])))
   \<and> validate_loop example_print_shape example_files (\<lambda>bin. bin) ''dir/net.nnef'' three_tensors
       = ''Could not open file: dir/t2.dat'' @ endl
   \<and> main example_outside [''nnef-validator'', ''dir/net.nnef'', ''--binary'']
       = Inr \<lparr>return_value = 0,
              cout = ''graph f( x, y ) -> ( z )'' @ endl @ ''{'' @ endl
                     @ [CHR 0x09] @ ''t3 = add(t1, t2)'' @ endl
                     @ ''}'' @ endl @ ''Parse succeeded'' @ endl,
              cerr = ''Could not open file: dir/t2.dat'' @ endl\<rparr>"
proof (intro conjI impI)
  show "validate_loop ps op rd fn (xs @ it # ys)
     = validate_loop ps op rd fn xs @ check_entry ps op rd fn it @ validate_loop ps op rd fn ys"
    by (simp add: validate_loop_append)
  show "validate_loop ps op rd fn entries = concat (map (check_entry ps op rd fn) entries)"
    by (rule validate_loop_concat)
  show "check_entry ps op rd fn it = ''Could not open file: '' @ binaryFilename fn (fst it) @ endl"
    if "op (binaryFilename fn (fst it)) = None"
    using that by (simp add: check_entry_def)
  show "check_entry ps op rd fn it
            = ''Failed to read binary header from file: '' @ binaryFilename fn (fst it) @ endl"
    if "op (binaryFilename fn (fst it)) = Some bin \<and> rd bin = None"
    using that by (simp add: check_entry_def)
  show "check_entry ps op rd fn it
            = (if shape_equal (header_shape header) (snd it) then []
               else ''Shape '' @ ps (header_shape header) @ '' in tensor file ''
                    @ [CHR 0x27] @ binaryFilename fn (fst it) @ [CHR 0x27]
                    @ '' does not match shape '' @ ps (snd it)
                    @ '' defined in network structure'' @ endl)"
    if "op (binaryFilename fn (fst it)) = Some bin \<and> rd bin = Some header"
    using that by (simp add: check_entry_def)
  show "\<exists>run. parse_and_check outside filename stream st = Inr run
              \<and> return_value run = 0
              \<and> cerr run = snd (snd st)
                   @ (if opt_binary (fst st)
                      then validate_loop (print_shape outside) (open_file outside)
                             (read_tensor_header outside) filename
                             (variableShapes (run_parser outside stream (fst st)))
                      else [])"
    if "print_events (print_value outside) (events (run_parser outside stream (fst st))) = Inr printed"
    using that by (rule parse_and_check_returns)
  show "validate_loop example_print_shape example_files (\<lambda>bin. bin) ''dir/net.nnef'' three_tensors
       = ''Could not open file: dir/t2.dat'' @ endl"
    by (rule example_validate)
  show "main example_outside [''nnef-validator'', ''dir/net.nnef'', ''--binary'']
       = Inr \<lparr>return_value = 0,
              cout = ''graph f( x, y ) -> ( z )'' @ endl @ ''{'' @ endl
                     @ [CHR 0x09] @ ''t3 = add(t1, t2)'' @ endl
                     @ ''}'' @ endl @ ''Parse succeeded'' @ endl,
              cerr = ''Could not open file: dir/t2.dat'' @ endl\<rparr>"
    by (rule example_main)
qed


theorem validate_loop_partial_failure_witness:
  "validate_loop example_print_shape example_files (\<lambda>bin. bin) ''dir/net.nnef''
      ([(''t1'', [1, 3])] @ (''t2'', [2]) # [(''t3'', [4])])
     = ''Could not open file: dir/t2.dat'' @ endl
   \<and> check_entry example_print_shape example_files (\<lambda>bin. bin) ''dir/net.nnef'' (''t2'', [2])
       = ''Could not open file: dir/t2.dat'' @ endl
   \<and> check_entry example_print_shape example_files (\<lambda>bin. bin) ''dir/net.nnef'' (''t4'', [2])
       = ''Failed to read binary header from file: dir/t4.dat'' @ endl
   \<and> check_entry example_print_shape example_files (\<lambda>bin. bin) ''dir/net.nnef'' (''t1'', [3, 1])
       = ''Shape [1,3] in tensor file '' @ [CHR 0x27] @ ''dir/t1.dat'' @ [CHR 0x27]
         @ '' does not match shape [3,1] defined in network structure'' @ endl
   \<and> check_entry example_print_shape example_files (\<lambda>bin. bin) ''dir/net.nnef'' (''t3'', [4]) = []
   \<and> (\<exists>run. parse_and_check example_outside ''dir/net.nnef'' None (no_options\<lparr>opt_binary := True\<rparr>, [], [])
                = Inr run
          \<and> return_value run = 0
          \<and> cerr run = ''Could not open file: dir/t2.dat'' @ endl)"
proof -
  let ?text = "''graph f( x, y ) -> ( z )'' @ endl @ ''{'' @ endl
            @ [CHR 0x09] @ ''t3 = add(t1, t2)'' @ endl
            @ ''}'' @ endl"
  have name: "binaryFilename ''dir/net.nnef'' n = ''dir/'' @ n @ ''.dat''" for n
    by (simp add: binaryFilename_def find_last_of_def npos_def)
  have printed: "print_events (print_value example_outside)
      (events (run_parser example_outside None (fst (no_options\<lparr>opt_binary := True\<rparr>, [], []))))
      = Inr ?text"
    by (simp add: run_parser_def example_outside_def example_events del: print_events.simps)
  have outside: "print_shape example_outside = example_print_shape"
    "read_tensor_header example_outside = (\<lambda>bin. bin)"
    "open_file example_outside = example_files"
    "variableShapes (run_parser example_outside None (no_options\<lparr>opt_binary := True\<rparr>)) = three_tensors"
    by (simp_all add: example_outside_def run_parser_def)
  note t2 = validate_loop_partial_failure [of example_print_shape example_files "\<lambda>bin. bin"
      "''dir/net.nnef''" "[(''t1'', [1, 3])]" "(''t2'', [2])" "[(''t3'', [4])]" "[]"
      None "\<lparr>header_shape = [4]\<rparr>" example_outside None "(no_options\<lparr>opt_binary := True\<rparr>, [], [])"
      ?text "''dir/net.nnef''"]
  note t4 = validate_loop_partial_failure [of example_print_shape example_files "\<lambda>bin. bin"
      "''dir/net.nnef''" "[]" "(''t4'', [2])" "[]" "[]"
      None "\<lparr>header_shape = [4]\<rparr>" example_outside None "(no_options, [], [])"
      ?text "''dir/net.nnef''"]
  note t1 = validate_loop_partial_failure [of example_print_shape example_files "\<lambda>bin. bin"
      "''dir/net.nnef''" "[]" "(''t1'', [3, 1])" "[]" "[]"
      "Some \<lparr>header_shape = [1, 3]\<rparr>" "\<lparr>header_shape = [1, 3]\<rparr>" example_outside None "(no_options, [], [])"
      ?text "''dir/net.nnef''"]
  note t3 = validate_loop_partial_failure [of example_print_shape example_files "\<lambda>bin. bin"
      "''dir/net.nnef''" "[]" "(''t3'', [4])" "[]" "[]"
      "Some \<lparr>header_shape = [4]\<rparr>" "\<lparr>header_shape = [4]\<rparr>" example_outside None "(no_options, [], [])"
      ?text "''dir/net.nnef''"]
  from t2 have 2: "check_entry example_print_shape example_files (\<lambda>bin. bin) ''dir/net.nnef'' (''t2'', [2])
       = ''Could not open file: dir/t2.dat'' @ endl"
    by (simp add: name example_files_def)
  from t4 have 4: "check_entry example_print_shape example_files (\<lambda>bin. bin) ''dir/net.nnef'' (''t4'', [2])
       = ''Failed to read binary header from file: dir/t4.dat'' @ endl"
    by (simp add: name example_files_def)
  from t1 have 1: "check_entry example_print_shape example_files (\<lambda>bin. bin) ''dir/net.nnef'' (''t1'', [3, 1])
       = ''Shape [1,3] in tensor file '' @ [CHR 0x27] @ ''dir/t1.dat'' @ [CHR 0x27]
         @ '' does not match shape [3,1] defined in network structure'' @ endl"
    by (simp add: name example_files_def shape_equal_def example_print_shape_def
          print_unsigned.simps digit_def)
  from t1 have same: "check_entry example_print_shape example_files (\<lambda>bin. bin) ''dir/net.nnef'' (''t1'', [1, 3]) = []"
    by (simp add: check_entry_def name example_files_def shape_equal_def)
  from t3 have 3: "check_entry example_print_shape example_files (\<lambda>bin. bin) ''dir/net.nnef'' (''t3'', [4]) = []"
    by (simp add: name example_files_def shape_equal_def)
  from t2 2 same 3
  have loop: "validate_loop example_print_shape example_files (\<lambda>bin. bin) ''dir/net.nnef''
      ([(''t1'', [1, 3])] @ (''t2'', [2]) # [(''t3'', [4])])
     = ''Could not open file: dir/t2.dat'' @ endl"
    by simp
  from t2 printed
  have run: "\<exists>run. parse_and_check example_outside ''dir/net.nnef'' None (no_options\<lparr>opt_binary := True\<rparr>, [], [])
                = Inr run
          \<and> return_value run = 0
          \<and> cerr run = ''Could not open file: dir/t2.dat'' @ endl"
    by (simp add: outside example_validate)
  from loop 2 4 1 3 run show ?thesis by blast
qed

text \<open>
  Claim C6, as amended. Once the description file has been opened and the options have been
  read, the standard error of a run that returns holds, after what the options wrote, the
  output of the loop over the shapes the callback has recorded when \<open>--binary\<close> was given,
  and nothing more when it was not. Whether the parser has thrown an error plays no part:
  after an error the loop checks the shapes recorded up to the error.
\<close>

theorem validation_follows_binary_only:
  assumes "2 \<le> length argv"
    and "open_file outside (argv ! 1) = Some stream"
    and "options_loop argv 2 (no_options, [], []) = Inr (opts, out, err)"
    and "main outside argv = Inr run"
  shows "cerr run = err
           @ (if opt_binary opts
              then validate_loop (print_shape outside) (open_file outside)
                     (read_tensor_header outside) (argv ! 1)
                     (variableShapes (run_parser outside stream opts))
              else [])"
proof -
  from assms have "parse_and_check outside (argv ! 1) stream (opts, out, err) = Inr run"
    by (simp add: main_def)
  then show ?thesis
    by (auto simp: parse_and_check_def Let_def split: sum.splits)
qed

lemma failing_main:
  "main failing_outside [''nnef-validator'', ''net.nnef'', ''--binary'']
     = Inr \<lparr>return_value = 0,
            cout = ''graph f( x, y ) -> ( z )'' @ endl @ ''{'' @ endl
                   @ ''Parse error: [3:5] undefined identifier'' @ endl
                   @ ''... evaluated from [10:2]'' @ endl
                   @ ''... evaluated from [1:1]'' @ endl,
            cerr = ''Could not open file: w.dat'' @ endl\<rparr>"
proof -
  have "open_file failing_outside ''net.nnef'' = Some None"
    by (simp add: failing_outside_def)
  moreover have "run_parser failing_outside None (no_options\<lparr>opt_binary := True\<rparr>)
      = \<lparr>events = [BeginGraph graph_f], thrown = Some chain_error, variableShapes = [(''w'', [1])]\<rparr>"
    by (simp add: run_parser_def failing_outside_def)
  moreover have "print_value failing_outside = (\<lambda>v. v)"
    and "print_shape failing_outside = example_print_shape"
    and "read_tensor_header failing_outside = (\<lambda>bin. bin)"
    and "open_file failing_outside ''w.dat'' = None"
    by (simp_all add: failing_outside_def)
  moreover have "binaryFilename ''net.nnef'' ''w'' = ''w.dat''"
    by (simp add: binaryFilename_def find_last_of_def npos_def)
  moreover have "beginGraph graph_f = ''graph f( x, y ) -> ( z )'' @ endl @ ''{'' @ endl"
    by (simp add: beginGraph_def graph_f_def tensor_def)
  moreover have "report_error chain_error = ''Parse error: [3:5] undefined identifier'' @ endl
                   @ ''... evaluated from [10:2]'' @ endl
                   @ ''... evaluated from [1:1]'' @ endl"
    by (simp add: report_error_def chain_error_def evaluated_from_def print_unsigned.simps digit_def)
  ultimately show ?thesis
    by (simp add: main_def example_binary_options parse_and_check_def Let_def check_entry_def)
qed

theorem validation_follows_binary_only_witness:
  "\<exists>run. main failing_outside [''nnef-validator'', ''net.nnef'', ''--binary''] = Inr run
      \<and> cerr run = ''Could not open file: w.dat'' @ endl"
proof -
  let ?argv = "[''nnef-validator'', ''net.nnef'', ''--binary'']"
  have 1: "2 \<le> length ?argv" by simp
  have 2: "open_file failing_outside (?argv ! 1) = Some None"
    by (simp add: failing_outside_def)
  have 3: "options_loop ?argv 2 (no_options, [], []) = Inr (no_options\<lparr>opt_binary := True\<rparr>, [], [])"
    by (rule example_binary_options)
  from validation_follows_binary_only [OF 1 2 3 failing_main]
  have "cerr \<lparr>return_value = 0,
            cout = ''graph f( x, y ) -> ( z )'' @ endl @ ''{'' @ endl
                   @ ''Parse error: [3:5] undefined identifier'' @ endl
                   @ ''... evaluated from [10:2]'' @ endl
                   @ ''... evaluated from [1:1]'' @ endl,
            cerr = ''Could not open file: w.dat'' @ endl\<rparr> = ''Could not open file: w.dat'' @ endl"
    by simp
  with failing_main show ?thesis by simp
qed

text \<open>
  Claim C6 as stated fails: in this run the parser throws, \<open>--binary\<close> was given, and the
  loop over the recorded shapes runs all the same and reports the file it cannot open.
\<close>

theorem validation_after_error_counterexample:
  "thrown (run_parser failing_outside None (no_options\<lparr>opt_binary := True\<rparr>)) = Some chain_error
   \<and> main failing_outside [''nnef-validator'', ''net.nnef'', ''--binary'']
       = Inr \<lparr>return_value = 0,
              cout = ''graph f( x, y ) -> ( z )'' @ endl @ ''{'' @ endl
                     @ ''Parse error: [3:5] undefined identifier'' @ endl
                     @ ''... evaluated from [10:2]'' @ endl
                     @ ''... evaluated from [1:1]'' @ endl,
              cerr = ''Could not open file: w.dat'' @ endl\<rparr>"
  by (simp add: failing_main) (simp add: run_parser_def failing_outside_def)

end
